theory Spec2Isabelle
  imports Main
begin

section \<open>Go strings\<close>

text \<open>
  A Go string is a sequence of bytes; \<^typ>\<open>string\<close> is a list of 8-bit characters.
  \<^verbatim>\<open>strings.HasPrefix\<close>, \<^verbatim>\<open>strings.TrimPrefix\<close> and \<^verbatim>\<open>strings.TrimRight\<close> work on
  bytes. \<^verbatim>\<open>strings.TrimSpace\<close> removes leading and trailing runes with the Unicode
  property White\_Space; the table below lists the UTF-8 encodings of those runes.
\<close>

definition HasPrefix :: "string \<Rightarrow> string \<Rightarrow> bool" where
  "HasPrefix s p = (take (length p) s = p)"

definition TrimPrefix :: "string \<Rightarrow> string \<Rightarrow> string" where
  "TrimPrefix s p = (if HasPrefix s p then drop (length p) s else s)"

definition White_Space :: "nat list list" where
  "White_Space =
     [[0x09], [0x0A], [0x0B], [0x0C], [0x0D], [0x20],
      [0xC2, 0x85], [0xC2, 0xA0], [0xE1, 0x9A, 0x80],
      [0xE2, 0x80, 0x80], [0xE2, 0x80, 0x81], [0xE2, 0x80, 0x82], [0xE2, 0x80, 0x83],
      [0xE2, 0x80, 0x84], [0xE2, 0x80, 0x85], [0xE2, 0x80, 0x86], [0xE2, 0x80, 0x87],
      [0xE2, 0x80, 0x88], [0xE2, 0x80, 0x89], [0xE2, 0x80, 0x8A],
      [0xE2, 0x80, 0xA8], [0xE2, 0x80, 0xA9], [0xE2, 0x80, 0xAF],
      [0xE2, 0x81, 0x9F], [0xE3, 0x80, 0x80]]"

definition space_len :: "nat list list \<Rightarrow> string \<Rightarrow> nat" where
  "space_len ws s =
     (case find (\<lambda>w. take (length w) (map of_char s) = w) ws of
        None \<Rightarrow> 0 | Some w \<Rightarrow> length w)"

function trim_left :: "nat list list \<Rightarrow> string \<Rightarrow> string" where
  "trim_left ws s =
     (if s = [] \<or> space_len ws s = 0 then s else trim_left ws (drop (space_len ws s) s))"
  by pat_completeness auto
termination
  by (relation "measure (\<lambda>(ws, s). length s)") auto

declare trim_left.simps [simp del]

definition TrimSpace :: "string \<Rightarrow> string" where
  "TrimSpace s = rev (trim_left (map rev White_Space) (rev (trim_left White_Space s)))"

text \<open>\<^verbatim>\<open>strings.TrimRight(s, "/")\<close>: every trailing \<^verbatim>\<open>/\<close> is removed.\<close>

definition TrimRight_slash :: "string \<Rightarrow> string" where
  "TrimRight_slash s = rev (dropWhile (\<lambda>c. c = CHR ''/'') (rev s))"

text \<open>\<^verbatim>\<open>%d\<close> of \<^verbatim>\<open>fmt\<close>: a Go \<^verbatim>\<open>int\<close> in decimal.\<close>

function digits :: "nat \<Rightarrow> string" where
  "digits n =
     (if n < 10 then [char_of (48 + n)]
      else digits (n div 10) @ [char_of (48 + n mod 10)])"
  by pat_completeness auto
termination
  by (relation "measure id") auto

declare digits.simps [simp del]

definition itoa :: "int \<Rightarrow> string" where
  "itoa i = (if i < 0 then CHR ''-'' # digits (nat (- i)) else digits (nat i))"

section \<open>Errors\<close>

text \<open>
  \<^verbatim>\<open>core.AppError\<close> with a nil cause, an error built by \<^verbatim>\<open>fmt.Errorf\<close> (its formatted
  message), and an error handed over by the standard library (its message).
\<close>

datatype error = AppError string | Errorf string | LibError string

fun Error :: "error \<Rightarrow> string" where
  "Error (AppError msg) = msg"
| "Error (Errorf msg) = msg"
| "Error (LibError msg) = msg"

section \<open>The cancellation signal and the fragment channel\<close>

text \<open>
  The producer goroutine observes its \<^verbatim>\<open>context.Context\<close> at two kinds of places: the
  non-blocking poll at the top of each loop iteration, and the blocking \<^verbatim>\<open>select\<close> that
  sends a fragment. Each observation advances a logical clock. The signal is cancelled
  from \<open>cancel_at\<close> on and stays cancelled. A \<^verbatim>\<open>select\<close> with both the send and
  \<^verbatim>\<open>ctx.Done()\<close> ready picks either case (Go chooses pseudo-randomly); \<open>pick_send\<close> is
  that choice. The consumer is taken to drain the channel, as the \<^verbatim>\<open>Client\<close> contract
  requires, so a send with the signal not cancelled goes through.
\<close>

record ctx =
  cancel_at :: "nat option"
  pick_send :: "nat \<Rightarrow> bool"

definition ctx_Done :: "ctx \<Rightarrow> nat \<Rightarrow> bool" where
  "ctx_Done c t = (case cancel_at c of None \<Rightarrow> False | Some d \<Rightarrow> d \<le> t)"

text \<open>
  The producer's state: the fragments placed on the channel so far (in order), the number
  of lines \<^verbatim>\<open>scanner.Scan()\<close> has delivered, the clock, and whether the deferred
  \<^verbatim>\<open>close(ch)\<close> and \<^verbatim>\<open>body.Close()\<close> have run.
\<close>

record producer =
  ch :: "string list"
  scanned :: nat
  clock :: nat
  ch_closed :: bool
  body_closed :: bool

definition start :: producer where
  "start = \<lparr>ch = [], scanned = 0, clock = 0, ch_closed = False, body_closed = False\<rparr>"

text \<open>One successful \<^verbatim>\<open>scanner.Scan()\<close> followed by the poll of the signal.\<close>

definition scan :: "producer \<Rightarrow> producer" where
  "scan s = s\<lparr>scanned := scanned s + 1, clock := clock s + 1\<rparr>"

text \<open>
  \<^verbatim>\<open>select { case ch <- v: case <-ctx.Done(): return }\<close>: \<open>None\<close> when the
  cancellation case is taken.
\<close>

definition send :: "ctx \<Rightarrow> string \<Rightarrow> producer \<Rightarrow> producer option" where
  "send c v s =
     (if ctx_Done c (clock s) \<and> \<not> pick_send c (clock s) then None
      else Some (s\<lparr>ch := ch s @ [v], clock := clock s + 1\<rparr>))"

text \<open>The two deferred calls, run on every exit path.\<close>

definition deferred :: "producer \<Rightarrow> producer" where
  "deferred s = s\<lparr>ch_closed := True, body_closed := True\<rparr>"

section \<open>The event-stream scanner\<close>

text \<open>
  The body is given as the lines \<^verbatim>\<open>bufio.Scanner\<close> delivers before \<^verbatim>\<open>Scan\<close> returns
  false. \<open>extractDelta\<close> returns \<open>Inl err\<close> for a non-nil error and otherwise the pair
  (delta, done).
\<close>

fun sse_loop :: "ctx \<Rightarrow> (string \<Rightarrow> error + string \<times> bool) \<Rightarrow> string list \<Rightarrow> producer \<Rightarrow> producer" where
  "sse_loop c extractDelta [] s = s"
| "sse_loop c extractDelta (line # rest) s =
     (if ctx_Done c (clock s) then scan s
      else if \<not> HasPrefix line ''data:'' then sse_loop c extractDelta rest (scan s)
      else let payload = TrimSpace (TrimPrefix line ''data:'') in
        if payload = ''[DONE]'' then scan s
        else case extractDelta payload of
          Inl err \<Rightarrow> sse_loop c extractDelta rest (scan s)
        | Inr (delta, done) \<Rightarrow>
            if done then scan s
            else if delta \<noteq> '''' then
              (case send c delta (scan s) of
                 None \<Rightarrow> scan s
               | Some s' \<Rightarrow> sse_loop c extractDelta rest s')
            else sse_loop c extractDelta rest (scan s))"

definition sseStream :: "ctx \<Rightarrow> string list \<Rightarrow> (string \<Rightarrow> error + string \<times> bool) \<Rightarrow> producer" where
  "sseStream c body extractDelta = deferred (sse_loop c extractDelta body start)"

section \<open>Decoded frames\<close>

text \<open>
  The structs \<^verbatim>\<open>json.Unmarshal\<close> fills. \<^verbatim>\<open>encoding/json\<close> is not part of the
  repository: each decoder is a parameter, returning \<open>Inl err\<close> when
  \<^verbatim>\<open>json.Unmarshal\<close> returns a non-nil error.
\<close>

record groqChoice =
  Delta_Content :: string
  FinishReason :: "string option"

record groqDelta =
  Choices :: "groqChoice list"

record ollamaDelta =
  Message_Content :: string
  Done :: bool

record claudeContentBlockDelta =
  Delta_Type :: string
  Delta_Text :: string

text \<open>The closure \<^verbatim>\<open>groqClient.Stream\<close> passes to \<^verbatim>\<open>sseStream\<close>.\<close>

definition groq_extractDelta :: "(string \<Rightarrow> error + groqDelta) \<Rightarrow> string \<Rightarrow> error + string \<times> bool" where
  "groq_extractDelta unmarshal data =
     (case unmarshal data of
        Inl err \<Rightarrow> Inl err
      | Inr msg \<Rightarrow>
          (case Choices msg of
             [] \<Rightarrow> Inr ('''', False)
           | choice # _ \<Rightarrow>
               if FinishReason choice = Some ''stop'' then Inr ('''', True)
               else Inr (Delta_Content choice, False)))"

section \<open>The newline-delimited JSON loop of the local-inference adapter\<close>

fun ollama_loop :: "ctx \<Rightarrow> (string \<Rightarrow> error + ollamaDelta) \<Rightarrow> string list \<Rightarrow> producer \<Rightarrow> producer" where
  "ollama_loop c unmarshal [] s = s"
| "ollama_loop c unmarshal (line # rest) s =
     (if ctx_Done c (clock s) then scan s
      else case unmarshal line of
        Inl err \<Rightarrow> ollama_loop c unmarshal rest (scan s)
      | Inr msg \<Rightarrow>
          if Message_Content msg \<noteq> '''' then
            (case send c (Message_Content msg) (scan s) of
               None \<Rightarrow> scan s
             | Some s' \<Rightarrow> if Done msg then s' else ollama_loop c unmarshal rest s')
          else if Done msg then scan s
          else ollama_loop c unmarshal rest (scan s))"

definition ollama_producer :: "ctx \<Rightarrow> (string \<Rightarrow> error + ollamaDelta) \<Rightarrow> string list \<Rightarrow> producer" where
  "ollama_producer c unmarshal body = deferred (ollama_loop c unmarshal body start)"

section \<open>The event-stream loop of the Anthropic adapter\<close>

text \<open>\<open>currentEvent\<close> is the loop's variable, set by each \<^verbatim>\<open>event:\<close> line.\<close>

fun claude_loop :: "ctx \<Rightarrow> (string \<Rightarrow> error + claudeContentBlockDelta) \<Rightarrow> string \<Rightarrow> string list \<Rightarrow> producer \<Rightarrow> producer" where
  "claude_loop c unmarshal currentEvent [] s = s"
| "claude_loop c unmarshal currentEvent (line # rest) s =
     (if ctx_Done c (clock s) then scan s
      else if HasPrefix line ''event:'' then
        claude_loop c unmarshal (TrimSpace (TrimPrefix line ''event:'')) rest (scan s)
      else if HasPrefix line ''data:'' then
        (let payload = TrimSpace (TrimPrefix line ''data:'') in
         if currentEvent = ''content_block_delta'' then
           (case unmarshal payload of
              Inl err \<Rightarrow> claude_loop c unmarshal currentEvent rest (scan s)
            | Inr delta \<Rightarrow>
                if Delta_Type delta = ''text_delta'' \<and> Delta_Text delta \<noteq> '''' then
                  (case send c (Delta_Text delta) (scan s) of
                     None \<Rightarrow> scan s
                   | Some s' \<Rightarrow> claude_loop c unmarshal currentEvent rest s')
                else claude_loop c unmarshal currentEvent rest (scan s))
         else if currentEvent = ''message_stop'' then scan s
         else claude_loop c unmarshal currentEvent rest (scan s))
      else claude_loop c unmarshal currentEvent rest (scan s))"

definition claude_producer :: "ctx \<Rightarrow> (string \<Rightarrow> error + claudeContentBlockDelta) \<Rightarrow> string list \<Rightarrow> producer" where
  "claude_producer c unmarshal body = deferred (claude_loop c unmarshal '''' body start)"

section \<open>Requests and the transport helper\<close>

record chatMessage =
  Role :: string
  Content :: string

datatype payload =
  groqRequest string "chatMessage list" bool
| ollamaRequest string "chatMessage list" bool
| claudeRequest string int string "chatMessage list" bool

record request =
  Method :: string
  URL :: string
  Header :: "string \<rightharpoonup> string"
  Body :: string

text \<open>
  A response: its status code, the bytes \<^verbatim>\<open>io.ReadAll\<close> returns from its body, and the
  lines a \<^verbatim>\<open>bufio.Scanner\<close> delivers from its body.
\<close>

record response =
  StatusCode :: int
  BodyText :: string
  BodyLines :: "string list"

text \<open>
  The standard-library calls, taken as parameters: \<^verbatim>\<open>json.Marshal\<close>, whether
  \<^verbatim>\<open>http.NewRequestWithContext\<close> rejects the URL, \<^verbatim>\<open>http.DefaultClient.Do\<close>, and
  \<^verbatim>\<open>json.Unmarshal\<close> into each of the three frame structs.
\<close>

record lib =
  Marshal :: "payload \<Rightarrow> error + string"
  NewRequest :: "string \<Rightarrow> error option"
  Do :: "request \<Rightarrow> error + response"
  Unmarshal_groq :: "string \<Rightarrow> error + groqDelta"
  Unmarshal_ollama :: "string \<Rightarrow> error + ollamaDelta"
  Unmarshal_claude :: "string \<Rightarrow> error + claudeContentBlockDelta"

definition doPost :: "lib \<Rightarrow> string \<Rightarrow> (string \<rightharpoonup> string) \<Rightarrow> payload \<Rightarrow> error + string list" where
  "doPost L url headers p =
     (case Marshal L p of
        Inl err \<Rightarrow> Inl (Errorf (''mind: marshal request: '' @ Error err))
      | Inr body \<Rightarrow>
          (case NewRequest L url of
             Some err \<Rightarrow> Inl (Errorf (''mind: create request: '' @ Error err))
           | None \<Rightarrow>
               (case Do L \<lparr>Method = ''POST'', URL = url,
                            Header = [''Content-Type'' \<mapsto> ''application/json''] ++ headers,
                            Body = body\<rparr> of
                  Inl err \<Rightarrow> Inl (Errorf (''mind: request: '' @ Error err))
                | Inr resp \<Rightarrow>
                    if StatusCode resp \<ge> 400 then
                      Inl (Errorf (''mind: server returned '' @ itoa (StatusCode resp)
                                   @ '': '' @ BodyText resp))
                    else Inr (BodyLines resp))))"

section \<open>The three clients\<close>

text \<open>
  The implementations of the \<^verbatim>\<open>Client\<close> interface: \<open>ollamaClient host model\<close>,
  \<open>groqClient apiKey model\<close>, \<open>claudeClient apiKey model\<close>.
\<close>

datatype Client =
  ollamaClient string string
| groqClient string string
| claudeClient string string

definition anthropicAPIURL :: string where
  "anthropicAPIURL = ''https://api.anthropic.com/v1/messages''"

definition anthropicVersion :: string where
  "anthropicVersion = ''2023-06-01''"

definition claudeMaxTokens :: int where
  "claudeMaxTokens = 8192"

text \<open>The URL \<^verbatim>\<open>ollamaClient.Stream\<close> posts to.\<close>

definition ollama_url :: "string \<Rightarrow> string" where
  "ollama_url host =
     TrimRight_slash (if host = '''' then ''http://localhost:11434'' else host) @ ''/api/chat''"

text \<open>
  \<^verbatim>\<open>Stream\<close> returns the startup error, or the channel; the channel is given by the
  producer's run: the fragments it places on the channel and its final state.
\<close>

fun Stream :: "lib \<Rightarrow> Client \<Rightarrow> ctx \<Rightarrow> string \<Rightarrow> string \<Rightarrow> error + producer" where
  "Stream L (groqClient apiKey model) c system user =
     (case doPost L ''https://api.groq.com/openai/v1/chat/completions''
             [''Authorization'' \<mapsto> ''Bearer '' @ apiKey]
             (groqRequest model
                [\<lparr>Role = ''system'', Content = system\<rparr>, \<lparr>Role = ''user'', Content = user\<rparr>] True) of
        Inl err \<Rightarrow> Inl err
      | Inr body \<Rightarrow> Inr (sseStream c body (groq_extractDelta (Unmarshal_groq L))))"
| "Stream L (ollamaClient host model) c system user =
     (case doPost L (ollama_url host) Map.empty
             (ollamaRequest model
                [\<lparr>Role = ''system'', Content = system\<rparr>, \<lparr>Role = ''user'', Content = user\<rparr>] True) of
        Inl err \<Rightarrow> Inl err
      | Inr body \<Rightarrow> Inr (ollama_producer c (Unmarshal_ollama L) body))"
| "Stream L (claudeClient apiKey model) c system user =
     (case doPost L anthropicAPIURL
             [''x-api-key'' \<mapsto> apiKey, ''anthropic-version'' \<mapsto> anthropicVersion]
             (claudeRequest model claudeMaxTokens system
                [\<lparr>Role = ''user'', Content = user\<rparr>] True) of
        Inl err \<Rightarrow> Inl err
      | Inr body \<Rightarrow> Inr (claude_producer c (Unmarshal_claude L) body))"

section \<open>The provider factory\<close>

record Config =
  AIProvider :: string
  AIModel :: string
  APIKey :: string
  OllamaHost :: string
  DefaultStyle :: string

text \<open>
  \<^verbatim>\<open>strings.ToLower\<close> and the \<^verbatim>\<open>%q\<close> verb of \<^verbatim>\<open>fmt\<close> (\<^verbatim>\<open>strconv.Quote\<close>) are
  parameters.
\<close>

definition NewClientFromConfig :: "(string \<Rightarrow> string) \<Rightarrow> (string \<Rightarrow> string) \<Rightarrow> Config \<Rightarrow> error + Client" where
  "NewClientFromConfig ToLower Quote cfg =
     (let p = ToLower (AIProvider cfg) in
      if p = ''ollama'' then Inr (ollamaClient (OllamaHost cfg) (AIModel cfg))
      else if p = ''groq'' \<or> p = '''' then
        (if APIKey cfg = '''' then Inl (AppError ''api_key is required for groq provider'')
         else Inr (groqClient (APIKey cfg) (AIModel cfg)))
      else if p = ''claude'' then
        (if APIKey cfg = '''' then Inl (AppError ''api_key is required for claude provider'')
         else Inr (claudeClient (APIKey cfg)
                     (if AIModel cfg = '''' then ''claude-sonnet-4-6'' else AIModel cfg)))
      else Inl (AppError (''unknown ai_provider '' @ Quote (AIProvider cfg)
                          @ '' (valid: groq, ollama, claude)'')))"

section \<open>Sample environments\<close>

text \<open>
  Concrete environments at which the theorems below are instantiated:
  \<^verbatim>\<open>context.Background()\<close>, which is never cancelled; decoders that return what
  \<^verbatim>\<open>json.Unmarshal\<close> returns on a few payloads and an error elsewhere; a library whose
  transport answers every request with one given response; byte-wise lower-casing, and
  quoting of a string that needs no escapes.
\<close>

definition Background :: ctx where
  "Background = \<lparr>cancel_at = None, pick_send = (\<lambda>t. True)\<rparr>"




definition sample_Unmarshal_groq :: "string \<Rightarrow> error + groqDelta" where
  \<open>sample_Unmarshal_groq data =
     (if data = ''{"choices":[{"delta":{"content":"Hel"}}]}''
        then Inr \<lparr>Choices = [\<lparr>Delta_Content = ''Hel'', FinishReason = None\<rparr>]\<rparr>
      else if data = ''{"choices":[{"delta":{"content":"lo"}}]}''
        then Inr \<lparr>Choices = [\<lparr>Delta_Content = ''lo'', FinishReason = None\<rparr>]\<rparr>
      else if data = ''{"choices":[{"delta":{"content":""}}]}''
        then Inr \<lparr>Choices = [\<lparr>Delta_Content = '''', FinishReason = None\<rparr>]\<rparr>
      else if data = ''{"choices":[{"delta":{"content":"!"},"finish_reason":"stop"}]}''
        then Inr \<lparr>Choices = [\<lparr>Delta_Content = ''!'', FinishReason = Some ''stop''\<rparr>]\<rparr>
      else Inl (LibError ''invalid character''))\<close>

definition sample_Unmarshal_ollama :: "string \<Rightarrow> error + ollamaDelta" where
  \<open>sample_Unmarshal_ollama data =
     (if data = ''{"message":{"content":"Hi"},"done":false}''
        then Inr \<lparr>Message_Content = ''Hi'', Done = False\<rparr>
      else if data = ''{"message":{"content":""},"done":false}''
        then Inr \<lparr>Message_Content = '''', Done = False\<rparr>
      else if data = ''{"message":{"content":""},"done":true}''
        then Inr \<lparr>Message_Content = '''', Done = True\<rparr>
      else if data = ''{"message":{"content":"!"},"done":true}''
        then Inr \<lparr>Message_Content = ''!'', Done = True\<rparr>
      else Inl (LibError ''invalid character''))\<close>

definition sample_Unmarshal_claude :: "string \<Rightarrow> error + claudeContentBlockDelta" where
  \<open>sample_Unmarshal_claude data =
     (if data = ''{"delta":{"type":"text_delta","text":"Yo"}}''
        then Inr \<lparr>Delta_Type = ''text_delta'', Delta_Text = ''Yo''\<rparr>
      else if data = ''{"delta":{"type":"text_delta","text":""}}''
        then Inr \<lparr>Delta_Type = ''text_delta'', Delta_Text = ''''\<rparr>
      else if data = ''{"type":"message_stop"}''
        then Inr \<lparr>Delta_Type = '''', Delta_Text = ''''\<rparr>
      else Inl (LibError ''invalid character''))\<close>

definition sample_lib :: "response \<Rightarrow> lib" where
  "sample_lib resp =
     \<lparr>Marshal = (\<lambda>p. Inr ''{}''), NewRequest = (\<lambda>u. None), Do = (\<lambda>r. Inr resp),
      Unmarshal_groq = sample_Unmarshal_groq, Unmarshal_ollama = sample_Unmarshal_ollama,
      Unmarshal_claude = sample_Unmarshal_claude\<rparr>"

definition ascii_lower :: "string \<Rightarrow> string" where
  "ascii_lower s =
     map (\<lambda>c. if (65::nat) \<le> of_char c \<and> of_char c \<le> (90::nat)
              then char_of (of_char c + (32::nat)) else c) s"

definition quote_plain :: "string \<Rightarrow> string" where
  "quote_plain s = [CHR 0x22] @ s @ [CHR 0x22]"

section \<open>Basic facts about the producer's steps\<close>

lemma ch_scan: "ch (scan s) = ch s"
  by (simp add: scan_def)

lemma clock_scan: "clock (scan s) = Suc (clock s)"
  by (simp add: scan_def)

lemma ch_deferred: "ch (deferred s) = ch s"
  by (simp add: deferred_def)

lemma send_Some: "send c v s = Some s' \<Longrightarrow> s' = s\<lparr>ch := ch s @ [v], clock := clock s + 1\<rparr>"
  by (auto simp: send_def split: if_splits)

lemma nonempty_scan: "'''' \<notin> set (ch s) \<Longrightarrow> '''' \<notin> set (ch (scan s))"
  by (simp add: ch_scan)

lemma nonempty_send:
  "'''' \<notin> set (ch s) \<Longrightarrow> v \<noteq> '''' \<Longrightarrow> send c v s = Some s' \<Longrightarrow> '''' \<notin> set (ch s')"
  by (auto dest!: send_Some)

section \<open>Every fragment is non-empty\<close>

lemma sse_loop_nonempty:
  "'''' \<notin> set (ch s) \<Longrightarrow> '''' \<notin> set (ch (sse_loop c ex ls s))"
proof (induction ls arbitrary: s)
  case Nil
  then show ?case by simp
next
  case (Cons line rest)
  note a = nonempty_scan [OF Cons.prems]
  show ?case
    using a nonempty_send [OF a] Cons.IH
    by (simp add: Let_def split: sum.splits prod.splits option.splits)
qed

lemma ollama_loop_nonempty:
  "'''' \<notin> set (ch s) \<Longrightarrow> '''' \<notin> set (ch (ollama_loop c u ls s))"
proof (induction ls arbitrary: s)
  case Nil
  then show ?case by simp
next
  case (Cons line rest)
  note a = nonempty_scan [OF Cons.prems]
  show ?case
    using a nonempty_send [OF a] Cons.IH
    by (simp add: Let_def split: sum.splits prod.splits option.splits)
qed

lemma claude_loop_nonempty:
  "'''' \<notin> set (ch s) \<Longrightarrow> '''' \<notin> set (ch (claude_loop c u ev ls s))"
proof (induction ls arbitrary: s ev)
  case Nil
  then show ?case by simp
next
  case (Cons line rest)
  note a = nonempty_scan [OF Cons.prems]
  show ?case
    using a nonempty_send [OF a] Cons.IH
    by (simp add: Let_def split: sum.splits prod.splits option.splits) blast
qed

lemma Stream_nonempty:
  assumes "Stream L cl c system user = Inr p"
  shows "'''' \<notin> set (ch p)"
proof (cases cl)
  case (ollamaClient host model)
  then show ?thesis using assms ollama_loop_nonempty [of start]
    by (auto simp: ollama_producer_def ch_deferred start_def split: sum.splits)
next
  case (groqClient k m)
  then show ?thesis using assms sse_loop_nonempty [of start]
    by (auto simp: sseStream_def ch_deferred start_def split: sum.splits)
next
  case (claudeClient k m)
  then show ?thesis using assms claude_loop_nonempty [of start]
    by (auto simp: claude_producer_def ch_deferred start_def split: sum.splits)
qed

lemma sse_empty_delta:
  assumes "\<not> ctx_Done c (clock s)" and "HasPrefix line ''data:''"
    and "TrimSpace (TrimPrefix line ''data:'') \<noteq> ''[DONE]''"
    and "ex (TrimSpace (TrimPrefix line ''data:'')) = Inr ('''', False)"
  shows "sse_loop c ex (line # rest) s = sse_loop c ex rest (scan s)"
  using assms by (simp add: Let_def)

lemma claude_empty_delta:
  assumes "\<not> ctx_Done c (clock s)" and "\<not> HasPrefix line ''event:''"
    and "HasPrefix line ''data:''"
    and "u (TrimSpace (TrimPrefix line ''data:'')) = Inr d"
    and "Delta_Type d \<noteq> ''text_delta'' \<or> Delta_Text d = ''''"
  shows "claude_loop c u ''content_block_delta'' (line # rest) s
         = claude_loop c u ''content_block_delta'' rest (scan s)"
  using assms by (auto simp: Let_def)

lemma ollama_empty_content:
  assumes "\<not> ctx_Done c (clock s)" and "u line = Inr m" and "Message_Content m = ''''"
  shows "ollama_loop c u (line # rest) s
         = (if Done m then scan s else ollama_loop c u rest (scan s))"
  using assms by simp

text \<open>
  C8. Whatever the adapter and the body, no fragment on the channel is the empty string.
  A frame that decodes to empty text puts nothing on the channel: the event-stream scanner
  and the Anthropic loop go on to the next line, the local-inference loop goes on or, when
  the line says done, returns.
\<close>

theorem fragments_nonempty:
  "(Stream L cl c system user = Inr p \<longrightarrow> '''' \<notin> set (ch p))
   \<and> (\<not> ctx_Done c (clock s) \<and> HasPrefix sline ''data:''
        \<and> TrimSpace (TrimPrefix sline ''data:'') \<noteq> ''[DONE]''
        \<and> ex (TrimSpace (TrimPrefix sline ''data:'')) = Inr ('''', False)
      \<longrightarrow> sse_loop c ex (sline # srest) s = sse_loop c ex srest (scan s))
   \<and> (\<not> ctx_Done c (clock s) \<and> \<not> HasPrefix cline ''event:'' \<and> HasPrefix cline ''data:''
        \<and> cu (TrimSpace (TrimPrefix cline ''data:'')) = Inr d
        \<and> (Delta_Type d \<noteq> ''text_delta'' \<or> Delta_Text d = '''')
      \<longrightarrow> claude_loop c cu ''content_block_delta'' (cline # crest) s
          = claude_loop c cu ''content_block_delta'' crest (scan s))
   \<and> (\<not> ctx_Done c (clock s) \<and> ou oline = Inr m \<and> Message_Content m = ''''
      \<longrightarrow> ollama_loop c ou (oline # orest) s
          = (if Done m then scan s else ollama_loop c ou orest (scan s)))"
  using Stream_nonempty [of L cl c system user p]
    sse_empty_delta [of c s sline ex srest]
    claude_empty_delta [of c s cline cu d crest]
    ollama_empty_content [of c s ou oline m orest]
  by blast

theorem fragments_nonempty_witness:
  \<open>Stream (sample_lib \<lparr>StatusCode = 200, BodyText = '''',
              BodyLines = [''data: {"choices":[{"delta":{"content":"Hel"}}]}'',
                           ''data: {"choices":[{"delta":{"content":""}}]}'',
                           ''data: {"choices":[{"delta":{"content":"lo"}}]}'']\<rparr>)
      (groqClient ''k'' ''m'') Background ''sys'' ''usr''
    = Inr \<lparr>ch = [''Hel'', ''lo''], scanned = 3, clock = 5, ch_closed = True, body_closed = True\<rparr>
   \<and> '''' \<notin> set [''Hel'', ''lo'']
   \<and> sse_loop Background (groq_extractDelta sample_Unmarshal_groq)
        [''data: {"choices":[{"delta":{"content":""}}]}'',
         ''data: {"choices":[{"delta":{"content":"lo"}}]}''] start
      = sse_loop Background (groq_extractDelta sample_Unmarshal_groq)
        [''data: {"choices":[{"delta":{"content":"lo"}}]}''] (scan start)
   \<and> claude_loop Background sample_Unmarshal_claude ''content_block_delta''
        [''data: {"delta":{"type":"text_delta","text":""}}'',
         ''data: {"delta":{"type":"text_delta","text":"Yo"}}''] start
      = claude_loop Background sample_Unmarshal_claude ''content_block_delta''
        [''data: {"delta":{"type":"text_delta","text":"Yo"}}''] (scan start)
   \<and> ollama_loop Background sample_Unmarshal_ollama
        [''{"message":{"content":""},"done":false}'',
         ''{"message":{"content":"Hi"},"done":false}''] start
      = ollama_loop Background sample_Unmarshal_ollama
        [''{"message":{"content":"Hi"},"done":false}''] (scan start)\<close>
proof -
  let ?L = \<open>sample_lib \<lparr>StatusCode = 200, BodyText = '''',
              BodyLines = [''data: {"choices":[{"delta":{"content":"Hel"}}]}'',
                           ''data: {"choices":[{"delta":{"content":""}}]}'',
                           ''data: {"choices":[{"delta":{"content":"lo"}}]}'']\<rparr>\<close>
  let ?p = "\<lparr>ch = [''Hel'', ''lo''], scanned = 3, clock = 5, ch_closed = True, body_closed = True\<rparr>"
  let ?l1 = \<open>''data: {"choices":[{"delta":{"content":""}}]}''\<close>
  let ?l2 = \<open>''data: {"delta":{"type":"text_delta","text":""}}''\<close>
  let ?l3 = \<open>''{"message":{"content":""},"done":false}''\<close>
  let ?d = "\<lparr>Delta_Type = ''text_delta'', Delta_Text = ''''\<rparr>"
  let ?m = "\<lparr>Message_Content = '''', Done = False\<rparr>"
  have run: "Stream ?L (groqClient ''k'' ''m'') Background ''sys'' ''usr'' = Inr ?p"
    by code_simp
  have live: "\<not> ctx_Done Background (clock start)"
    by (simp add: ctx_Done_def Background_def)
  have a1: "HasPrefix ?l1 ''data:''" by (simp add: HasPrefix_def)
  have a2: "TrimSpace (TrimPrefix ?l1 ''data:'') \<noteq> ''[DONE]''" by code_simp
  have a3: "groq_extractDelta sample_Unmarshal_groq (TrimSpace (TrimPrefix ?l1 ''data:''))
            = Inr ('''', False)" by code_simp
  have b1: "\<not> HasPrefix ?l2 ''event:''" by (simp add: HasPrefix_def)
  have b2: "HasPrefix ?l2 ''data:''" by (simp add: HasPrefix_def)
  have b3: "sample_Unmarshal_claude (TrimSpace (TrimPrefix ?l2 ''data:'')) = Inr ?d"
    by code_simp
  have c1: "sample_Unmarshal_ollama ?l3 = Inr ?m" by code_simp
  show ?thesis
    using fragments_nonempty [where L = ?L and cl = "groqClient ''k'' ''m''" and c = Background
        and system = "''sys''" and user = "''usr''" and p = ?p and s = start
        and sline = ?l1 and ex = "groq_extractDelta sample_Unmarshal_groq"
        and srest = \<open>[''data: {"choices":[{"delta":{"content":"lo"}}]}'']\<close>
        and cline = ?l2 and cu = sample_Unmarshal_claude and d = ?d
        and crest = \<open>[''data: {"delta":{"type":"text_delta","text":"Yo"}}'']\<close>
        and ou = sample_Unmarshal_ollama and oline = ?l3 and m = ?m
        and orest = \<open>[''{"message":{"content":"Hi"},"done":false}'']\<close>]
      run live a1 a2 a3 b1 b2 b3 c1
    by simp
qed

section \<open>The terminal frame of the OpenAI-compatible adapter\<close>

text \<open>
  C10. A \<^verbatim>\<open>data:\<close> line whose decoded first choice has \<^verbatim>\<open>finish_reason\<close> equal to
  \<^verbatim>\<open>"stop"\<close> is terminal: the closure returns the empty delta with done set, whatever
  \<^verbatim>\<open>delta.content\<close> the frame carries, and the scanner returns having put nothing on the
  channel and without reading the lines that follow.
\<close>

theorem groq_stop_discards_content:
  assumes "HasPrefix line ''data:''"
    and "unmarshal (TrimSpace (TrimPrefix line ''data:'')) = Inr msg"
    and "Choices msg = choice # others"
    and "FinishReason choice = Some ''stop''"
  shows "groq_extractDelta unmarshal (TrimSpace (TrimPrefix line ''data:'')) = Inr ('''', True)
       \<and> sse_loop c (groq_extractDelta unmarshal) (line # rest) s = scan s
       \<and> ch (sse_loop c (groq_extractDelta unmarshal) (line # rest) s) = ch s"
  using assms by (simp add: groq_extractDelta_def Let_def ch_scan)

theorem groq_stop_discards_content_witness:
  \<open>HasPrefix ''data: {"choices":[{"delta":{"content":"!"},"finish_reason":"stop"}]}'' ''data:''
   \<and> sample_Unmarshal_groq
         (TrimSpace (TrimPrefix ''data: {"choices":[{"delta":{"content":"!"},"finish_reason":"stop"}]}'' ''data:''))
       = Inr \<lparr>Choices = [\<lparr>Delta_Content = ''!'', FinishReason = Some ''stop''\<rparr>]\<rparr>
   \<and> sse_loop Background (groq_extractDelta sample_Unmarshal_groq)
         [''data: {"choices":[{"delta":{"content":"!"},"finish_reason":"stop"}]}'',
          ''data: {"choices":[{"delta":{"content":"lo"}}]}''] start
       = scan start
   \<and> ch (sse_loop Background (groq_extractDelta sample_Unmarshal_groq)
         [''data: {"choices":[{"delta":{"content":"!"},"finish_reason":"stop"}]}'',
          ''data: {"choices":[{"delta":{"content":"lo"}}]}''] start) = []\<close>
proof -
  let ?l = \<open>''data: {"choices":[{"delta":{"content":"!"},"finish_reason":"stop"}]}''\<close>
  let ?choice = "\<lparr>Delta_Content = ''!'', FinishReason = Some ''stop''\<rparr>"
  have h1: "HasPrefix ?l ''data:''"
    by (simp add: HasPrefix_def)
  have h2: "sample_Unmarshal_groq (TrimSpace (TrimPrefix ?l ''data:'')) = Inr \<lparr>Choices = [?choice]\<rparr>"
    by code_simp
  have h3: "Choices \<lparr>Choices = [?choice]\<rparr> = ?choice # []"
    by simp
  have h4: "FinishReason ?choice = Some ''stop''"
    by simp
  note t = groq_stop_discards_content [where line = ?l and unmarshal = sample_Unmarshal_groq
      and msg = "\<lparr>Choices = [?choice]\<rparr>" and choice = ?choice and others = "[]"
      and c = Background and s = start
      and rest = \<open>[''data: {"choices":[{"delta":{"content":"lo"}}]}'']\<close>]
  have cs: "ch start = []"
    by (simp add: start_def)
  from t [OF h1 h2 h3 h4]
  have r1: \<open>sse_loop Background (groq_extractDelta sample_Unmarshal_groq)
             [?l, ''data: {"choices":[{"delta":{"content":"lo"}}]}''] start = scan start\<close>
    and r2: \<open>ch (sse_loop Background (groq_extractDelta sample_Unmarshal_groq)
             [?l, ''data: {"choices":[{"delta":{"content":"lo"}}]}''] start) = ch start\<close>
    by blast+
  show ?thesis
    by (intro conjI h1 h2 r1 trans [OF r2 cs])
qed

section \<open>The local-inference endpoint\<close>

text \<open>
  C9. With an empty configured host the local-inference adapter posts to
  \<^verbatim>\<open>http://localhost:11434/api/chat\<close>.
\<close>

theorem ollama_default_url:
  "ollama_url '''' = ''http://localhost:11434/api/chat''
   \<and> Stream L (ollamaClient '''' model) c system user =
       (case doPost L ''http://localhost:11434/api/chat'' Map.empty
               (ollamaRequest model
                  [\<lparr>Role = ''system'', Content = system\<rparr>, \<lparr>Role = ''user'', Content = user\<rparr>] True) of
          Inl err \<Rightarrow> Inl err
        | Inr body \<Rightarrow> Inr (ollama_producer c (Unmarshal_ollama L) body))"
  by (simp add: ollama_url_def TrimRight_slash_def)

section \<open>The factory on an unrecognized provider\<close>

text \<open>
  C7. When the lower-cased provider name is none of \<^verbatim>\<open>ollama\<close>, \<^verbatim>\<open>groq\<close>,
  \<^verbatim>\<open>claude\<close> and is not empty, the factory returns no client but an
  \<^verbatim>\<open>AppError\<close> whose message quotes the configured value and lists the valid
  providers. The factory has no access to the transport.
\<close>

theorem unknown_provider_error:
  assumes "ToLower (AIProvider cfg) \<notin> {''ollama'', ''groq'', '''', ''claude''}"
  shows "NewClientFromConfig ToLower Quote cfg =
           Inl (AppError (''unknown ai_provider '' @ Quote (AIProvider cfg)
                          @ '' (valid: groq, ollama, claude)''))"
  using assms by (simp add: NewClientFromConfig_def Let_def)

theorem unknown_provider_error_witness:
  \<open>ascii_lower ''OpenAI'' \<notin> {''ollama'', ''groq'', '''', ''claude''}
   \<and> NewClientFromConfig ascii_lower quote_plain
        \<lparr>AIProvider = ''OpenAI'', AIModel = ''m'', APIKey = ''k'', OllamaHost = '''',
         DefaultStyle = ''rounded''\<rparr>
      = Inl (AppError ''unknown ai_provider "OpenAI" (valid: groq, ollama, claude)'')\<close>
proof -
  let ?cfg = "\<lparr>AIProvider = ''OpenAI'', AIModel = ''m'', APIKey = ''k'', OllamaHost = '''',
               DefaultStyle = ''rounded''\<rparr>"
  have h: "ascii_lower (AIProvider ?cfg) \<notin> {''ollama'', ''groq'', '''', ''claude''}"
    by code_simp
  show ?thesis
    using unknown_provider_error [where ToLower = ascii_lower and cfg = ?cfg and Quote = quote_plain] h
    by (simp add: quote_plain_def)
qed

section \<open>A response with an error status\<close>

lemma itoa_500: "itoa 500 = ''500''"
  by code_simp

lemma doPost_status_error:
  assumes "Marshal L p = Inr b" and "NewRequest L url = None"
    and "\<forall>r. Do L r = Inr resp" and "400 \<le> StatusCode resp"
  shows "doPost L url headers p =
           Inl (Errorf (''mind: server returned '' @ itoa (StatusCode resp) @ '': '' @ BodyText resp))"
  using assms by (simp add: doPost_def)

text \<open>
  C5. When the request is built and sent and the response has a status of 400 or more,
  \<^verbatim>\<open>Stream\<close> of each client returns no channel but the error whose message carries the
  status code in decimal and the text of the response body. For status 500 and body
  \<^verbatim>\<open>server error\<close> the message is \<^verbatim>\<open>mind: server returned 500: server error\<close>.
\<close>

theorem Stream_status_error:
  assumes "\<forall>p. \<exists>b. Marshal L p = Inr b" and "\<forall>u. NewRequest L u = None"
    and "\<forall>r. Do L r = Inr resp" and "400 \<le> StatusCode resp"
  shows "Stream L cl c system user =
           Inl (Errorf (''mind: server returned '' @ itoa (StatusCode resp) @ '': '' @ BodyText resp))
       \<and> (StatusCode resp = 500 \<and> BodyText resp = ''server error'' \<longrightarrow>
            Stream L cl c system user = Inl (Errorf ''mind: server returned 500: server error''))"
proof -
  have d: "doPost L url headers p =
           Inl (Errorf (''mind: server returned '' @ itoa (StatusCode resp) @ '': '' @ BodyText resp))"
    for url headers p
  proof -
    obtain b where "Marshal L p = Inr b" using assms(1) by blast
    then show ?thesis using assms by (simp add: doPost_status_error)
  qed
  have "Stream L cl c system user =
           Inl (Errorf (''mind: server returned '' @ itoa (StatusCode resp) @ '': '' @ BodyText resp))"
    by (cases cl) (simp_all add: d)
  then show ?thesis by (auto simp: itoa_500)
qed

theorem Stream_status_error_witness:
  "(\<forall>p. \<exists>b. Marshal (sample_lib \<lparr>StatusCode = 500, BodyText = ''server error'', BodyLines = []\<rparr>) p = Inr b)
   \<and> (\<forall>u. NewRequest (sample_lib \<lparr>StatusCode = 500, BodyText = ''server error'', BodyLines = []\<rparr>) u = None)
   \<and> (\<forall>r. Do (sample_lib \<lparr>StatusCode = 500, BodyText = ''server error'', BodyLines = []\<rparr>) r
           = Inr \<lparr>StatusCode = 500, BodyText = ''server error'', BodyLines = []\<rparr>)
   \<and> Stream (sample_lib \<lparr>StatusCode = 500, BodyText = ''server error'', BodyLines = []\<rparr>)
        (claudeClient ''k'' ''m'') Background ''sys'' ''usr''
      = Inl (Errorf ''mind: server returned 500: server error'')"
proof -
  let ?r = "\<lparr>StatusCode = 500, BodyText = ''server error'', BodyLines = []\<rparr>"
  have h1: "\<forall>p. \<exists>b. Marshal (sample_lib ?r) p = Inr b"
    by (simp add: sample_lib_def)
  have h2: "\<forall>u. NewRequest (sample_lib ?r) u = None"
    by (simp add: sample_lib_def)
  have h3: "\<forall>q. Do (sample_lib ?r) q = Inr ?r"
    by (simp add: sample_lib_def)
  have h4: "400 \<le> StatusCode ?r"
    by simp
  have h5: "StatusCode ?r = 500 \<and> BodyText ?r = ''server error''"
    by simp
  have "Stream (sample_lib ?r) (claudeClient ''k'' ''m'') Background ''sys'' ''usr''
        = Inl (Errorf ''mind: server returned 500: server error'')"
    using Stream_status_error [where L = "sample_lib ?r" and resp = ?r
        and cl = "claudeClient ''k'' ''m''" and c = Background and system = "''sys''"
        and user = "''usr''"] h1 h2 h3 h4 h5
    by blast
  then show ?thesis
    using h1 h2 h3 by blast
qed

section \<open>Runs that are not cancelled\<close>

lemma never_Done: "cancel_at c = None \<Longrightarrow> \<not> ctx_Done c t"
  by (simp add: ctx_Done_def)

lemma send_live:
  "\<not> ctx_Done c (clock s) \<Longrightarrow> send c v s = Some (s\<lparr>ch := ch s @ [v], clock := clock s + 1\<rparr>)"
  by (simp add: send_def)

lemma doPost_success:
  assumes "\<forall>p. \<exists>b. Marshal L p = Inr b" and "\<forall>u. NewRequest L u = None"
    and "\<forall>r. Do L r = Inr resp" and "StatusCode resp < 400"
  shows "doPost L url headers p = Inr (BodyLines resp)"
proof -
  obtain b where "Marshal L p = Inr b" using assms(1) by blast
  then show ?thesis using assms by (simp add: doPost_def)
qed

lemma payload_Hel:
  \<open>TrimSpace (TrimPrefix ''data: {"choices":[{"delta":{"content":"Hel"}}]}'' ''data:'')
   = ''{"choices":[{"delta":{"content":"Hel"}}]}''\<close>
  by code_simp

lemma payload_lo:
  \<open>TrimSpace (TrimPrefix ''data: {"choices":[{"delta":{"content":"lo"}}]}'' ''data:'')
   = ''{"choices":[{"delta":{"content":"lo"}}]}''\<close>
  by code_simp

lemma payload_DONE: "TrimSpace (TrimPrefix ''data: [DONE]'' ''data:'') = ''[DONE]''"
  by code_simp

lemma sse_scenario:
  assumes "cancel_at c = None"
    and \<open>u ''{"choices":[{"delta":{"content":"Hel"}}]}''
         = Inr \<lparr>Choices = [\<lparr>Delta_Content = ''Hel'', FinishReason = None\<rparr>]\<rparr>\<close>
    and \<open>u ''{"choices":[{"delta":{"content":"lo"}}]}''
         = Inr \<lparr>Choices = [\<lparr>Delta_Content = ''lo'', FinishReason = None\<rparr>]\<rparr>\<close>
  shows \<open>sseStream c (''data: {"choices":[{"delta":{"content":"Hel"}}]}''
                      # ''data: {"choices":[{"delta":{"content":"lo"}}]}''
                      # ''data: [DONE]'' # rest) (groq_extractDelta u)
         = \<lparr>ch = [''Hel'', ''lo''], scanned = 3, clock = 5, ch_closed = True, body_closed = True\<rparr>\<close>
proof -
  have hp: \<open>HasPrefix ''data: {"choices":[{"delta":{"content":"Hel"}}]}'' ''data:''\<close>
    \<open>HasPrefix ''data: {"choices":[{"delta":{"content":"lo"}}]}'' ''data:''\<close>
    "HasPrefix ''data: [DONE]'' ''data:''"
    by (simp_all add: HasPrefix_def)
  show ?thesis
    using assms(2,3)
    by (simp add: sseStream_def hp payload_Hel payload_lo payload_DONE groq_extractDelta_def
        never_Done [OF assms(1)] send_live scan_def start_def deferred_def)
qed


text \<open>
  C2. When the request succeeds and the body consists of the two content lines and the
  \<^verbatim>\<open>[DONE]\<close> line (followed by anything at all), the channel of the OpenAI-compatible
  adapter carries exactly \<^verbatim>\<open>Hel\<close> and \<^verbatim>\<open>lo\<close> and is closed, the body is closed, and
  three lines have been scanned: nothing after the sentinel line is read.
\<close>

theorem groq_scenario:
  assumes "\<forall>p. \<exists>b. Marshal L p = Inr b" and "\<forall>u. NewRequest L u = None"
    and "\<forall>r. Do L r = Inr resp" and "StatusCode resp < 400"
    and \<open>BodyLines resp = ''data: {"choices":[{"delta":{"content":"Hel"}}]}''
                          # ''data: {"choices":[{"delta":{"content":"lo"}}]}''
                          # ''data: [DONE]'' # rest\<close>
    and \<open>Unmarshal_groq L ''{"choices":[{"delta":{"content":"Hel"}}]}''
         = Inr \<lparr>Choices = [\<lparr>Delta_Content = ''Hel'', FinishReason = None\<rparr>]\<rparr>\<close>
    and \<open>Unmarshal_groq L ''{"choices":[{"delta":{"content":"lo"}}]}''
         = Inr \<lparr>Choices = [\<lparr>Delta_Content = ''lo'', FinishReason = None\<rparr>]\<rparr>\<close>
    and "cancel_at c = None"
  shows "Stream L (groqClient apiKey model) c system user
         = Inr \<lparr>ch = [''Hel'', ''lo''], scanned = 3, clock = 5,
                ch_closed = True, body_closed = True\<rparr>"
  using doPost_success [OF assms(1-4)] sse_scenario [OF assms(8,6,7), of rest]
  by (simp add: assms(5))

theorem groq_scenario_witness:
  \<open>Stream (sample_lib \<lparr>StatusCode = 200, BodyText = '''',
              BodyLines = [''data: {"choices":[{"delta":{"content":"Hel"}}]}'',
                           ''data: {"choices":[{"delta":{"content":"lo"}}]}'',
                           ''data: [DONE]'',
                           ''data: {"choices":[{"delta":{"content":"lo"}}]}'']\<rparr>)
      (groqClient ''key'' ''llama-3.3-70b-versatile'') Background ''sys'' ''usr''
    = Inr \<lparr>ch = [''Hel'', ''lo''], scanned = 3, clock = 5, ch_closed = True, body_closed = True\<rparr>\<close>
proof -
  let ?r = \<open>\<lparr>StatusCode = 200, BodyText = '''',
              BodyLines = [''data: {"choices":[{"delta":{"content":"Hel"}}]}'',
                           ''data: {"choices":[{"delta":{"content":"lo"}}]}'',
                           ''data: [DONE]'',
                           ''data: {"choices":[{"delta":{"content":"lo"}}]}'']\<rparr>\<close>
  have h1: "\<forall>p. \<exists>b. Marshal (sample_lib ?r) p = Inr b"
    by (simp add: sample_lib_def)
  have h2: "\<forall>u. NewRequest (sample_lib ?r) u = None"
    by (simp add: sample_lib_def)
  have h3: "\<forall>q. Do (sample_lib ?r) q = Inr ?r"
    by (simp add: sample_lib_def)
  have h4: "StatusCode ?r < 400"
    by simp
  have h5: \<open>BodyLines ?r = ''data: {"choices":[{"delta":{"content":"Hel"}}]}''
                          # ''data: {"choices":[{"delta":{"content":"lo"}}]}''
                          # ''data: [DONE]''
                          # [''data: {"choices":[{"delta":{"content":"lo"}}]}'']\<close>
    by simp
  have h6: \<open>Unmarshal_groq (sample_lib ?r) ''{"choices":[{"delta":{"content":"Hel"}}]}''
         = Inr \<lparr>Choices = [\<lparr>Delta_Content = ''Hel'', FinishReason = None\<rparr>]\<rparr>\<close>
    by (simp add: sample_lib_def sample_Unmarshal_groq_def)
  have h7: \<open>Unmarshal_groq (sample_lib ?r) ''{"choices":[{"delta":{"content":"lo"}}]}''
         = Inr \<lparr>Choices = [\<lparr>Delta_Content = ''lo'', FinishReason = None\<rparr>]\<rparr>\<close>
    by (simp add: sample_lib_def sample_Unmarshal_groq_def)
  have h8: "cancel_at Background = None"
    by (simp add: Background_def)
  show ?thesis
    by (rule groq_scenario [where L = "sample_lib ?r" and resp = ?r, OF h1 h2 h3 h4 h5 h6 h7 h8])
qed

section \<open>The terminal line of the local-inference adapter\<close>

lemma ollama_done_line:
  assumes "cancel_at c = None" and "u line = Inr m" and "Done m"
  shows "ollama_loop c u (line # rest) s =
           (if Message_Content m \<noteq> ''''
            then (scan s)\<lparr>ch := ch s @ [Message_Content m], clock := clock (scan s) + 1\<rparr>
            else scan s)"
  using assms by (simp add: never_Done send_live ch_scan)

lemma ollama_scenario:
  assumes "cancel_at c = None"
    and \<open>u ''{"message":{"content":"Hi"},"done":false}''
         = Inr \<lparr>Message_Content = ''Hi'', Done = False\<rparr>\<close>
    and \<open>u ''{"message":{"content":""},"done":true}''
         = Inr \<lparr>Message_Content = '''', Done = True\<rparr>\<close>
  shows \<open>ollama_producer c u (''{"message":{"content":"Hi"},"done":false}''
                      # ''{"message":{"content":""},"done":true}'' # rest)
         = \<lparr>ch = [''Hi''], scanned = 2, clock = 3, ch_closed = True, body_closed = True\<rparr>\<close>
  using assms(2,3)
  by (simp add: ollama_producer_def never_Done [OF assms(1)] send_live scan_def start_def
      deferred_def)

text \<open>
  C4. In a run that is not cancelled, a line of the local-inference body that decodes with
  \<^verbatim>\<open>done\<close> true ends the loop: its content is put on the channel when it is not empty,
  and no later line is scanned. When the request succeeds and the body is the two lines of
  the scenario (followed by anything), the channel carries exactly \<^verbatim>\<open>Hi\<close> and is closed.
\<close>

theorem ollama_done_ends_stream:
  assumes "cancel_at c = None"
  shows \<open>(u line = Inr m \<and> Done m \<longrightarrow>
            ollama_loop c u (line # rest) s =
              (if Message_Content m \<noteq> ''''
               then (scan s)\<lparr>ch := ch s @ [Message_Content m], clock := clock (scan s) + 1\<rparr>
               else scan s))
       \<and> ((\<forall>p. \<exists>b. Marshal L p = Inr b) \<and> (\<forall>u. NewRequest L u = None)
           \<and> (\<forall>r. Do L r = Inr resp) \<and> StatusCode resp < 400
           \<and> BodyLines resp = ''{"message":{"content":"Hi"},"done":false}''
                               # ''{"message":{"content":""},"done":true}'' # following
           \<and> Unmarshal_ollama L ''{"message":{"content":"Hi"},"done":false}''
               = Inr \<lparr>Message_Content = ''Hi'', Done = False\<rparr>
           \<and> Unmarshal_ollama L ''{"message":{"content":""},"done":true}''
               = Inr \<lparr>Message_Content = '''', Done = True\<rparr>
          \<longrightarrow> Stream L (ollamaClient host model) c system user
              = Inr \<lparr>ch = [''Hi''], scanned = 2, clock = 3,
                     ch_closed = True, body_closed = True\<rparr>)\<close>
proof (intro conjI impI)
  assume "u line = Inr m \<and> Done m"
  then show "ollama_loop c u (line # rest) s =
              (if Message_Content m \<noteq> ''''
               then (scan s)\<lparr>ch := ch s @ [Message_Content m], clock := clock (scan s) + 1\<rparr>
               else scan s)"
    using ollama_done_line [OF assms] by blast
next
  assume a: \<open>(\<forall>p. \<exists>b. Marshal L p = Inr b) \<and> (\<forall>u. NewRequest L u = None)
           \<and> (\<forall>r. Do L r = Inr resp) \<and> StatusCode resp < 400
           \<and> BodyLines resp = ''{"message":{"content":"Hi"},"done":false}''
                               # ''{"message":{"content":""},"done":true}'' # following
           \<and> Unmarshal_ollama L ''{"message":{"content":"Hi"},"done":false}''
               = Inr \<lparr>Message_Content = ''Hi'', Done = False\<rparr>
           \<and> Unmarshal_ollama L ''{"message":{"content":""},"done":true}''
               = Inr \<lparr>Message_Content = '''', Done = True\<rparr>\<close>
  then have d: "doPost L url headers p = Inr (BodyLines resp)" for url headers p
    using doPost_success by blast
  show "Stream L (ollamaClient host model) c system user
              = Inr \<lparr>ch = [''Hi''], scanned = 2, clock = 3,
                     ch_closed = True, body_closed = True\<rparr>"
    using a ollama_scenario [OF assms, of "Unmarshal_ollama L" following]
    by (simp add: d)
qed

theorem ollama_done_ends_stream_witness:
  \<open>ollama_loop Background sample_Unmarshal_ollama
      [''{"message":{"content":"!"},"done":true}'', ''{"message":{"content":"Hi"},"done":false}'']
      start
    = \<lparr>ch = [''!''], scanned = 1, clock = 2, ch_closed = False, body_closed = False\<rparr>
   \<and> Stream (sample_lib \<lparr>StatusCode = 200, BodyText = '''',
              BodyLines = [''{"message":{"content":"Hi"},"done":false}'',
                           ''{"message":{"content":""},"done":true}'']\<rparr>)
      (ollamaClient '''' ''llama3'') Background ''sys'' ''usr''
    = Inr \<lparr>ch = [''Hi''], scanned = 2, clock = 3, ch_closed = True, body_closed = True\<rparr>\<close>
proof -
  let ?r = \<open>\<lparr>StatusCode = 200, BodyText = '''',
              BodyLines = [''{"message":{"content":"Hi"},"done":false}'',
                           ''{"message":{"content":""},"done":true}'']\<rparr>\<close>
  let ?m = "\<lparr>Message_Content = ''!'', Done = True\<rparr>"
  have h0: "cancel_at Background = None"
    by (simp add: Background_def)
  have g1: \<open>sample_Unmarshal_ollama ''{"message":{"content":"!"},"done":true}'' = Inr ?m \<and> Done ?m\<close>
    by (simp add: sample_Unmarshal_ollama_def)
  have g2: \<open>(\<forall>p. \<exists>b. Marshal (sample_lib ?r) p = Inr b) \<and> (\<forall>u. NewRequest (sample_lib ?r) u = None)
           \<and> (\<forall>q. Do (sample_lib ?r) q = Inr ?r) \<and> StatusCode ?r < 400
           \<and> BodyLines ?r = ''{"message":{"content":"Hi"},"done":false}''
                               # ''{"message":{"content":""},"done":true}'' # []
           \<and> Unmarshal_ollama (sample_lib ?r) ''{"message":{"content":"Hi"},"done":false}''
               = Inr \<lparr>Message_Content = ''Hi'', Done = False\<rparr>
           \<and> Unmarshal_ollama (sample_lib ?r) ''{"message":{"content":""},"done":true}''
               = Inr \<lparr>Message_Content = '''', Done = True\<rparr>\<close>
    by (simp add: sample_lib_def sample_Unmarshal_ollama_def)
  note t = ollama_done_ends_stream [OF h0, where u = sample_Unmarshal_ollama and m = ?m
      and line = \<open>''{"message":{"content":"!"},"done":true}''\<close>
      and rest = \<open>[''{"message":{"content":"Hi"},"done":false}'']\<close> and s = start
      and L = "sample_lib ?r" and resp = ?r and following = "[]"
      and host = "''''" and model = "''llama3''" and system = "''sys''" and user = "''usr''"]
  from t g1 have r1: \<open>ollama_loop Background sample_Unmarshal_ollama
      [''{"message":{"content":"!"},"done":true}'', ''{"message":{"content":"Hi"},"done":false}'']
      start
    = (if Message_Content ?m \<noteq> ''''
       then (scan start)\<lparr>ch := ch start @ [Message_Content ?m], clock := clock (scan start) + 1\<rparr>
       else scan start)\<close>
    by blast
  have r1': \<open>(if Message_Content ?m \<noteq> ''''
       then (scan start)\<lparr>ch := ch start @ [Message_Content ?m], clock := clock (scan start) + 1\<rparr>
       else scan start)
     = \<lparr>ch = [''!''], scanned = 1, clock = 2, ch_closed = False, body_closed = False\<rparr>\<close>
    by (simp add: scan_def start_def)
  from t g2 have r2: \<open>Stream (sample_lib ?r) (ollamaClient '''' ''llama3'') Background ''sys'' ''usr''
    = Inr \<lparr>ch = [''Hi''], scanned = 2, clock = 3, ch_closed = True, body_closed = True\<rparr>\<close>
    by blast
  show ?thesis
    by (intro conjI trans [OF r1 r1'] r2)
qed

section \<open>Lines that fail to decode\<close>

lemma data_not_event: "HasPrefix line ''data:'' \<Longrightarrow> \<not> HasPrefix line ''event:''"
  by (cases line) (auto simp: HasPrefix_def)

lemma sse_loop_ch_cong:
  "cancel_at c = None \<Longrightarrow> ch s = ch s' \<Longrightarrow> ch (sse_loop c ex ls s) = ch (sse_loop c ex ls s')"
proof (induction ls arbitrary: s s')
  case Nil
  then show ?case by simp
next
  case (Cons line rest)
  have a: "ch (scan s) = ch (scan s')" using Cons.prems by (simp add: ch_scan)
  have b: "ch ((scan s)\<lparr>ch := ch (scan s) @ [v], clock := clock (scan s) + 1\<rparr>)
         = ch ((scan s')\<lparr>ch := ch (scan s') @ [v], clock := clock (scan s') + 1\<rparr>)" for v
    using a by simp
  show ?case
    using Cons.IH [OF Cons.prems(1) a] Cons.IH [OF Cons.prems(1) b] a
    by (simp add: Let_def never_Done [OF Cons.prems(1)] send_live
        split: sum.splits prod.splits)
qed

lemma ollama_loop_ch_cong:
  "cancel_at c = None \<Longrightarrow> ch s = ch s' \<Longrightarrow> ch (ollama_loop c u ls s) = ch (ollama_loop c u ls s')"
proof (induction ls arbitrary: s s')
  case Nil
  then show ?case by simp
next
  case (Cons line rest)
  have a: "ch (scan s) = ch (scan s')" using Cons.prems by (simp add: ch_scan)
  have b: "ch ((scan s)\<lparr>ch := ch (scan s) @ [v], clock := clock (scan s) + 1\<rparr>)
         = ch ((scan s')\<lparr>ch := ch (scan s') @ [v], clock := clock (scan s') + 1\<rparr>)" for v
    using a by simp
  show ?case
    using Cons.IH [OF Cons.prems(1) a] Cons.IH [OF Cons.prems(1) b] a
    by (simp add: Let_def never_Done [OF Cons.prems(1)] send_live
        split: sum.splits prod.splits)
qed

lemma claude_loop_ch_cong:
  "cancel_at c = None \<Longrightarrow> ch s = ch s' \<Longrightarrow>
   ch (claude_loop c u ev ls s) = ch (claude_loop c u ev ls s')"
proof (induction ls arbitrary: s s' ev)
  case Nil
  then show ?case by simp
next
  case (Cons line rest)
  have a: "ch (scan s) = ch (scan s')" using Cons.prems by (simp add: ch_scan)
  have b: "ch ((scan s)\<lparr>ch := ch (scan s) @ [v], clock := clock (scan s) + 1\<rparr>)
         = ch ((scan s')\<lparr>ch := ch (scan s') @ [v], clock := clock (scan s') + 1\<rparr>)" for v
    using a by simp
  show ?case
    using Cons.IH [OF Cons.prems(1) a] Cons.IH [OF Cons.prems(1) b] a
    by (simp add: Let_def never_Done [OF Cons.prems(1)] send_live
        split: sum.splits prod.splits)
qed

lemma sse_decode_error:
  assumes "\<not> ctx_Done c (clock s)" and "HasPrefix line ''data:''"
    and "TrimSpace (TrimPrefix line ''data:'') \<noteq> ''[DONE]''"
    and "ex (TrimSpace (TrimPrefix line ''data:'')) = Inl err"
  shows "sse_loop c ex (line # rest) s = sse_loop c ex rest (scan s)"
  using assms by (simp add: Let_def)

lemma claude_decode_error:
  assumes "\<not> ctx_Done c (clock s)" and "HasPrefix line ''data:''"
    and "u (TrimSpace (TrimPrefix line ''data:'')) = Inl err"
  shows "claude_loop c u ''content_block_delta'' (line # rest) s
         = claude_loop c u ''content_block_delta'' rest (scan s)"
  using assms data_not_event [OF assms(2)] by (simp add: Let_def)

lemma ollama_decode_error:
  assumes "\<not> ctx_Done c (clock s)" and "u line = Inl err"
  shows "ollama_loop c u (line # rest) s = ollama_loop c u rest (scan s)"
  using assms by simp


text \<open>
  C6. A line whose payload the decoder rejects is dropped by each of the three loops: the
  loop goes on with the next line, the channel untouched (only the counters of scanned lines
  and of observations advance). In a run that is not cancelled the fragments are those of
  the same body without that line. For the event-stream scanner the payload is handed to the
  decoder when it is not the \<^verbatim>\<open>[DONE]\<close> sentinel; the Anthropic loop decodes the payload
  of a \<^verbatim>\<open>content_block_delta\<close> event.
\<close>

theorem decode_error_skipped:
  "(\<not> ctx_Done c (clock s) \<and> HasPrefix sline ''data:''
      \<and> TrimSpace (TrimPrefix sline ''data:'') \<noteq> ''[DONE]''
      \<and> ex (TrimSpace (TrimPrefix sline ''data:'')) = Inl serr
    \<longrightarrow> sse_loop c ex (sline # srest) s = sse_loop c ex srest (scan s)
        \<and> ch (scan s) = ch s
        \<and> (cancel_at c = None \<longrightarrow>
             ch (sse_loop c ex (sline # srest) s) = ch (sse_loop c ex srest s)))
   \<and> (\<not> ctx_Done c (clock s) \<and> HasPrefix cline ''data:''
      \<and> cu (TrimSpace (TrimPrefix cline ''data:'')) = Inl cerr
    \<longrightarrow> claude_loop c cu ''content_block_delta'' (cline # crest) s
          = claude_loop c cu ''content_block_delta'' crest (scan s)
        \<and> ch (scan s) = ch s
        \<and> (cancel_at c = None \<longrightarrow>
             ch (claude_loop c cu ''content_block_delta'' (cline # crest) s)
             = ch (claude_loop c cu ''content_block_delta'' crest s)))
   \<and> (\<not> ctx_Done c (clock s) \<and> ou oline = Inl oerr
    \<longrightarrow> ollama_loop c ou (oline # orest) s = ollama_loop c ou orest (scan s)
        \<and> ch (scan s) = ch s
        \<and> (cancel_at c = None \<longrightarrow>
             ch (ollama_loop c ou (oline # orest) s) = ch (ollama_loop c ou orest s)))"
proof (intro conjI impI)
  assume a: "\<not> ctx_Done c (clock s) \<and> HasPrefix sline ''data:''
      \<and> TrimSpace (TrimPrefix sline ''data:'') \<noteq> ''[DONE]''
      \<and> ex (TrimSpace (TrimPrefix sline ''data:'')) = Inl serr"
  then show e: "sse_loop c ex (sline # srest) s = sse_loop c ex srest (scan s)"
    using sse_decode_error by blast
  assume "cancel_at c = None"
  then show "ch (sse_loop c ex (sline # srest) s) = ch (sse_loop c ex srest s)"
    using e sse_loop_ch_cong [of c "scan s" s ex srest] by (simp add: ch_scan)
next
  assume a: "\<not> ctx_Done c (clock s) \<and> HasPrefix cline ''data:''
      \<and> cu (TrimSpace (TrimPrefix cline ''data:'')) = Inl cerr"
  then show e: "claude_loop c cu ''content_block_delta'' (cline # crest) s
          = claude_loop c cu ''content_block_delta'' crest (scan s)"
    using claude_decode_error by blast
  assume "cancel_at c = None"
  then show "ch (claude_loop c cu ''content_block_delta'' (cline # crest) s)
             = ch (claude_loop c cu ''content_block_delta'' crest s)"
    using e claude_loop_ch_cong [of c "scan s" s cu _ crest] by (simp add: ch_scan)
next
  assume a: "\<not> ctx_Done c (clock s) \<and> ou oline = Inl oerr"
  then show e: "ollama_loop c ou (oline # orest) s = ollama_loop c ou orest (scan s)"
    using ollama_decode_error by blast
  assume "cancel_at c = None"
  then show "ch (ollama_loop c ou (oline # orest) s) = ch (ollama_loop c ou orest s)"
    using e ollama_loop_ch_cong [of c "scan s" s ou orest] by (simp add: ch_scan)
qed (simp_all add: ch_scan)

theorem decode_error_skipped_witness:
  \<open>ch (sse_loop Background (groq_extractDelta sample_Unmarshal_groq)
        [''data: {"choices":[{"delta":'', ''data: {"choices":[{"delta":{"content":"Hel"}}]}'']
        start) = [''Hel'']
   \<and> ch (claude_loop Background sample_Unmarshal_claude ''content_block_delta''
        [''data: {"delta":'', ''data: {"delta":{"type":"text_delta","text":"Yo"}}''] start)
     = [''Yo'']
   \<and> ch (ollama_loop Background sample_Unmarshal_ollama
        [''{"message":'', ''{"message":{"content":"Hi"},"done":false}''] start) = [''Hi'']\<close>
proof -
  let ?sbad = \<open>''data: {"choices":[{"delta":''\<close>
  let ?cbad = \<open>''data: {"delta":''\<close>
  let ?obad = \<open>''{"message":''\<close>
  let ?srest = \<open>[''data: {"choices":[{"delta":{"content":"Hel"}}]}'']\<close>
  let ?crest = \<open>[''data: {"delta":{"type":"text_delta","text":"Yo"}}'']\<close>
  let ?orest = \<open>[''{"message":{"content":"Hi"},"done":false}'']\<close>
  let ?e = "LibError ''invalid character''"
  have live: "\<not> ctx_Done Background (clock start)"
    by (simp add: ctx_Done_def Background_def)
  have never: "cancel_at Background = None"
    by (simp add: Background_def)
  have s1: "HasPrefix ?sbad ''data:''" by (simp add: HasPrefix_def)
  have s2: "TrimSpace (TrimPrefix ?sbad ''data:'') \<noteq> ''[DONE]''" by code_simp
  have s3: "groq_extractDelta sample_Unmarshal_groq (TrimSpace (TrimPrefix ?sbad ''data:'')) = Inl ?e"
    by code_simp
  have c1: "HasPrefix ?cbad ''data:''" by (simp add: HasPrefix_def)
  have c2: "sample_Unmarshal_claude (TrimSpace (TrimPrefix ?cbad ''data:'')) = Inl ?e"
    by code_simp
  have o1: "sample_Unmarshal_ollama ?obad = Inl ?e" by code_simp
  note t = decode_error_skipped [where c = Background and s = start
      and sline = ?sbad and ex = "groq_extractDelta sample_Unmarshal_groq" and serr = ?e
      and srest = ?srest
      and cline = ?cbad and cu = sample_Unmarshal_claude and cerr = ?e and crest = ?crest
      and oline = ?obad and ou = sample_Unmarshal_ollama and oerr = ?e and orest = ?orest]
  from t live never s1 s2 s3
  have r1: "ch (sse_loop Background (groq_extractDelta sample_Unmarshal_groq) (?sbad # ?srest) start)
            = ch (sse_loop Background (groq_extractDelta sample_Unmarshal_groq) ?srest start)"
    by blast
  from t live never c1 c2
  have r2: "ch (claude_loop Background sample_Unmarshal_claude ''content_block_delta'' (?cbad # ?crest) start)
            = ch (claude_loop Background sample_Unmarshal_claude ''content_block_delta'' ?crest start)"
    by blast
  from t live never o1
  have r3: "ch (ollama_loop Background sample_Unmarshal_ollama (?obad # ?orest) start)
            = ch (ollama_loop Background sample_Unmarshal_ollama ?orest start)"
    by blast
  have v1: "ch (sse_loop Background (groq_extractDelta sample_Unmarshal_groq) ?srest start) = [''Hel'']"
    by code_simp
  have v2: "ch (claude_loop Background sample_Unmarshal_claude ''content_block_delta'' ?crest start) = [''Yo'']"
    by code_simp
  have v3: "ch (ollama_loop Background sample_Unmarshal_ollama ?orest start) = [''Hi'']"
    by code_simp
  show ?thesis
    by (intro conjI trans [OF r1 v1] trans [OF r2 v2] trans [OF r3 v3])
qed

section \<open>The end of an Anthropic stream\<close>

lemma claude_stop_on_data:
  assumes "HasPrefix line ''data:''"
  shows "claude_loop c u ''message_stop'' (line # rest) s = scan s"
  using assms data_not_event [OF assms] by (simp add: Let_def)

lemma event_message_stop: "TrimSpace (TrimPrefix ''event: message_stop'' ''event:'') = ''message_stop''"
  by code_simp

lemma event_content_block_delta:
  "TrimSpace (TrimPrefix ''event: content_block_delta'' ''event:'') = ''content_block_delta''"
  by code_simp

lemma payload_Yo:
  \<open>TrimSpace (TrimPrefix ''data: {"delta":{"type":"text_delta","text":"Yo"}}'' ''data:'')
   = ''{"delta":{"type":"text_delta","text":"Yo"}}''\<close>
  by code_simp

lemma claude_scenario:
  assumes "cancel_at c = None"
    and \<open>u ''{"delta":{"type":"text_delta","text":"Yo"}}''
         = Inr \<lparr>Delta_Type = ''text_delta'', Delta_Text = ''Yo''\<rparr>\<close>
  shows \<open>claude_producer c u [''event: content_block_delta'',
                               ''data: {"delta":{"type":"text_delta","text":"Yo"}}'',
                               ''event: message_stop'']
         = \<lparr>ch = [''Yo''], scanned = 3, clock = 4, ch_closed = True, body_closed = True\<rparr>\<close>
proof -
  have hp: "HasPrefix ''event: content_block_delta'' ''event:''"
    \<open>\<not> HasPrefix ''data: {"delta":{"type":"text_delta","text":"Yo"}}'' ''event:''\<close>
    \<open>HasPrefix ''data: {"delta":{"type":"text_delta","text":"Yo"}}'' ''data:''\<close>
    "HasPrefix ''event: message_stop'' ''event:''"
    by (simp_all add: HasPrefix_def)
  show ?thesis
    using assms(2)
    by (simp add: claude_producer_def hp event_content_block_delta event_message_stop payload_Yo
        never_Done [OF assms(1)] send_live scan_def start_def deferred_def)
qed

text \<open>
  C1. A frame is the payload of one \<^verbatim>\<open>data:\<close> line, and its event type is the current
  event type set by the last \<^verbatim>\<open>event:\<close> line. Reading a frame whose event type is
  \<^verbatim>\<open>message_stop\<close> ends the loop whatever its payload, which is not decoded: no later
  line is scanned and nothing more is put on the channel. So the loop returns at the
  \<^verbatim>\<open>data:\<close> line that follows an \<^verbatim>\<open>event: message_stop\<close> line. In the scenario,
  where the body ends after that event line, the channel carries exactly \<^verbatim>\<open>Yo\<close> and
  is closed.
\<close>

theorem claude_message_stop:
  \<open>(HasPrefix line ''data:'' \<longrightarrow>
        claude_loop c u ''message_stop'' (line # rest) s = scan s
        \<and> ch (claude_loop c u ''message_stop'' (line # rest) s) = ch s
        \<and> scanned (claude_loop c u ''message_stop'' (line # rest) s) = Suc (scanned s))
   \<and> (\<not> ctx_Done c (clock s) \<and> HasPrefix line ''data:'' \<longrightarrow>
        claude_loop c u ev (''event: message_stop'' # line # rest) s = scan (scan s))
   \<and> (cancel_at c = None
        \<and> u ''{"delta":{"type":"text_delta","text":"Yo"}}''
            = Inr \<lparr>Delta_Type = ''text_delta'', Delta_Text = ''Yo''\<rparr>
       \<longrightarrow> claude_producer c u [''event: content_block_delta'',
                                  ''data: {"delta":{"type":"text_delta","text":"Yo"}}'',
                                  ''event: message_stop'']
           = \<lparr>ch = [''Yo''], scanned = 3, clock = 4, ch_closed = True, body_closed = True\<rparr>)\<close>
proof (intro conjI impI)
  assume d: "HasPrefix line ''data:''"
  then show e: "claude_loop c u ''message_stop'' (line # rest) s = scan s"
    by (rule claude_stop_on_data)
  show "ch (claude_loop c u ''message_stop'' (line # rest) s) = ch s"
    by (simp only: e ch_scan)
  show "scanned (claude_loop c u ''message_stop'' (line # rest) s) = Suc (scanned s)"
    by (simp only: e) (simp add: scan_def)
next
  assume a: "\<not> ctx_Done c (clock s) \<and> HasPrefix line ''data:''"
  have e: "HasPrefix ''event: message_stop'' ''event:''"
    by (simp add: HasPrefix_def)
  have "claude_loop c u ev (''event: message_stop'' # line # rest) s
        = claude_loop c u ''message_stop'' (line # rest) (scan s)"
    using a e by (subst claude_loop.simps(2)) (simp add: event_message_stop del: claude_loop.simps)
  then show "claude_loop c u ev (''event: message_stop'' # line # rest) s = scan (scan s)"
    using a claude_stop_on_data by simp
next
  assume \<open>cancel_at c = None
        \<and> u ''{"delta":{"type":"text_delta","text":"Yo"}}''
            = Inr \<lparr>Delta_Type = ''text_delta'', Delta_Text = ''Yo''\<rparr>\<close>
  then show \<open>claude_producer c u [''event: content_block_delta'',
                                  ''data: {"delta":{"type":"text_delta","text":"Yo"}}'',
                                  ''event: message_stop'']
           = \<lparr>ch = [''Yo''], scanned = 3, clock = 4, ch_closed = True, body_closed = True\<rparr>\<close>
    using claude_scenario by blast
qed


theorem claude_message_stop_witness:
  \<open>claude_loop Background sample_Unmarshal_claude ''message_stop''
      [''data: {"type":"message_stop"}'', ''data: {"delta":{"type":"text_delta","text":"Yo"}}'']
      start = scan start
   \<and> claude_loop Background sample_Unmarshal_claude ''content_block_delta''
      [''event: message_stop'', ''data: {"type":"message_stop"}'',
       ''data: {"delta":{"type":"text_delta","text":"Yo"}}''] start = scan (scan start)
   \<and> claude_producer Background sample_Unmarshal_claude
        [''event: content_block_delta'',
         ''data: {"delta":{"type":"text_delta","text":"Yo"}}'',
         ''event: message_stop'']
      = \<lparr>ch = [''Yo''], scanned = 3, clock = 4, ch_closed = True, body_closed = True\<rparr>\<close>
proof -
  let ?l = \<open>''data: {"type":"message_stop"}''\<close>
  let ?rest = \<open>[''data: {"delta":{"type":"text_delta","text":"Yo"}}'']\<close>
  have live: "\<not> ctx_Done Background (clock start)"
    by (simp add: ctx_Done_def Background_def)
  have never: "cancel_at Background = None"
    by (simp add: Background_def)
  have d: "HasPrefix ?l ''data:''"
    by (simp add: HasPrefix_def)
  have y: \<open>sample_Unmarshal_claude ''{"delta":{"type":"text_delta","text":"Yo"}}''
            = Inr \<lparr>Delta_Type = ''text_delta'', Delta_Text = ''Yo''\<rparr>\<close>
    by (simp add: sample_Unmarshal_claude_def)
  note t = claude_message_stop [where c = Background and u = sample_Unmarshal_claude
      and line = ?l and rest = ?rest and s = start and ev = "''content_block_delta''"]
  from t d have r1: "claude_loop Background sample_Unmarshal_claude ''message_stop''
      (?l # ?rest) start = scan start"
    by blast
  from t d live have r2: "claude_loop Background sample_Unmarshal_claude ''content_block_delta''
      (''event: message_stop'' # ?l # ?rest) start = scan (scan start)"
    by blast
  from t never y have r3: \<open>claude_producer Background sample_Unmarshal_claude
        [''event: content_block_delta'',
         ''data: {"delta":{"type":"text_delta","text":"Yo"}}'',
         ''event: message_stop'']
      = \<lparr>ch = [''Yo''], scanned = 3, clock = 4, ch_closed = True, body_closed = True\<rparr>\<close>
    by blast
  show ?thesis
    by (intro conjI r1 r2 r3)
qed

section \<open>Cancellation\<close>











end
